theory Spec2Isabelle
  imports Main "HOL-Library.Word" "HOL-Library.Sublist"
begin

section \<open>Shared data: C strings, printf conversions, the abort hand-off\<close>

text \<open>
  A C string is modelled by its characters before the terminating NUL. A write through
  \<^verbatim>\<open>snprintf(buf, n, ...)\<close> keeps the first \<open>n - 1\<close> characters of the formatted text.
\<close>

definition snprintf :: "nat \<Rightarrow> string \<Rightarrow> string" where
  "snprintf n s = take (n - 1) s"

definition digit_char :: "nat \<Rightarrow> char" where
  "digit_char d = ''0123456789abcdef'' ! d"

text \<open>The conversions \<^verbatim>\<open>%u\<close>/\<^verbatim>\<open>%lu\<close> (decimal), \<^verbatim>\<open>%d\<close> (signed decimal) and hexadecimal.\<close>

fun show_nat :: "nat \<Rightarrow> string" where
  "show_nat n = (if n < 10 then [digit_char n] else show_nat (n div 10) @ [digit_char (n mod 10)])"

declare show_nat.simps [simp del]

definition show_int :: "int \<Rightarrow> string" where
  "show_int i = (if i < 0 then CHR ''-'' # show_nat (nat (- i)) else show_nat (nat i))"

fun show_hex :: "nat \<Rightarrow> string" where
  "show_hex n = (if n < 16 then [digit_char n] else show_hex (n div 16) @ [digit_char (n mod 16)])"

declare show_hex.simps [simp del]

type_synonym uintptr_t = "64 word"
type_synonym c_int = "32 word"

text \<open>
  \<^verbatim>\<open>abort(reason, printTrace, inSignalHandler, faultAddr)\<close> does not return: the handler
  \<^verbatim>\<open>signalHandler\<close> is declared \<^verbatim>\<open>[[noreturn]]\<close> and ends in this call. A handler is
  therefore modelled by the one hand-off it makes. The fourth argument is a pointer that
  defaults to null.
\<close>

datatype abort_call =
  Abort (reason: string) (printTrace: bool) (inSignalHandler: bool) (faultAddr: "uintptr_t option")

text \<open>
  The private header \<^verbatim>\<open>internal.hpp\<close> is not part of the sources at hand. Its two constants
  used by the handlers are parameters of the model.
\<close>

record internal_hpp =
  REASON_PREFIX :: string
  s_ALT_STACK_SIZE :: "64 word"

text \<open>
  Modelled from the spec: \<^verbatim>\<open>formatReason(buffer, what, detail, addr)\<close> is declared in the
  missing \<^verbatim>\<open>internal.hpp\<close>. The specification gives its output as
  \<^verbatim>\<open><prefix><CATEGORY>[ (<detail>)][, address 0x<hex>]\<close>, truncated to the destination buffer
  (256 bytes at every call site); a null \<^verbatim>\<open>detail\<close> or \<^verbatim>\<open>addr\<close> omits its part.
\<close>

definition formatReason :: "internal_hpp \<Rightarrow> string \<Rightarrow> string option \<Rightarrow> uintptr_t option \<Rightarrow> string" where
  "formatReason ih what detail addr =
     snprintf 256 (REASON_PREFIX ih @ what
       @ (case detail of None \<Rightarrow> [] | Some d \<Rightarrow> '' ('' @ d @ '')'')
       @ (case addr of None \<Rightarrow> [] | Some a \<Rightarrow> '', address 0x'' @ show_hex (unat a)))"

section \<open>The POSIX signal handler\<close>

text \<open>Signal numbers and \<^verbatim>\<open>si_code\<close> values of Linux on x86-64 (the handler reads \<^verbatim>\<open>REG_RIP\<close>).\<close>

definition SIGILL :: c_int where "SIGILL = 4"
definition SIGABRT :: c_int where "SIGABRT = 6"
definition SIGBUS :: c_int where "SIGBUS = 7"
definition SIGFPE :: c_int where "SIGFPE = 8"
definition SIGSEGV :: c_int where "SIGSEGV = 11"

definition SEGV_MAPERR :: c_int where "SEGV_MAPERR = 1"
definition SEGV_ACCERR :: c_int where "SEGV_ACCERR = 2"
definition SEGV_BNDERR :: c_int where "SEGV_BNDERR = 3"
definition SEGV_PKUERR :: c_int where "SEGV_PKUERR = 4"

definition BUS_ADRALN :: c_int where "BUS_ADRALN = 1"
definition BUS_ADRERR :: c_int where "BUS_ADRERR = 2"
definition BUS_OBJERR :: c_int where "BUS_OBJERR = 3"
definition BUS_MCEERR_AR :: c_int where "BUS_MCEERR_AR = 4"
definition BUS_MCEERR_AO :: c_int where "BUS_MCEERR_AO = 5"

definition ILL_ILLOPC :: c_int where "ILL_ILLOPC = 1"
definition ILL_ILLOPN :: c_int where "ILL_ILLOPN = 2"
definition ILL_ILLADR :: c_int where "ILL_ILLADR = 3"
definition ILL_ILLTRP :: c_int where "ILL_ILLTRP = 4"
definition ILL_PRVOPC :: c_int where "ILL_PRVOPC = 5"
definition ILL_PRVREG :: c_int where "ILL_PRVREG = 6"
definition ILL_COPROC :: c_int where "ILL_COPROC = 7"
definition ILL_BADSTK :: c_int where "ILL_BADSTK = 8"

definition FPE_INTDIV :: c_int where "FPE_INTDIV = 1"
definition FPE_INTOVF :: c_int where "FPE_INTOVF = 2"
definition FPE_FLTDIV :: c_int where "FPE_FLTDIV = 3"
definition FPE_FLTOVF :: c_int where "FPE_FLTOVF = 4"
definition FPE_FLTUND :: c_int where "FPE_FLTUND = 5"
definition FPE_FLTRES :: c_int where "FPE_FLTRES = 6"
definition FPE_FLTINV :: c_int where "FPE_FLTINV = 7"
definition FPE_FLTSUB :: c_int where "FPE_FLTSUB = 8"

record siginfo_t =
  si_code :: c_int
  si_addr :: uintptr_t

text \<open>The two general registers the handler reads from \<^verbatim>\<open>uc_mcontext.gregs\<close>.\<close>

record ucontext_t =
  REG_RIP :: uintptr_t
  REG_RSP :: uintptr_t

text \<open>
  The inner switch of \<^verbatim>\<open>case SIGSEGV\<close>: the value of \<^verbatim>\<open>detail\<close> when it is left.
  \<^verbatim>\<open>context\<close> is \<open>None\<close> for a null \<^verbatim>\<open>ctx\<close>. \<^verbatim>\<open>rangeLimit\<close> is the int 1024, converted
  to \<^verbatim>\<open>uintptr_t\<close> by the comparison; the subtraction is unsigned.
\<close>

definition rangeLimit :: uintptr_t where
  "rangeLimit = 1024"

definition segv_detail :: "siginfo_t \<Rightarrow> ucontext_t option \<Rightarrow> string option" where
  "segv_detail info context =
     (if si_code info = SEGV_MAPERR then
        (case context of
           None \<Rightarrow> Some ''address not mapped to object''
         | Some c \<Rightarrow>
             (let stackPtr = REG_RSP c; stackAddr = si_addr info in
              if stackAddr < stackPtr \<and> stackPtr - stackAddr < rangeLimit
              then Some ''stack overflow''
              else Some ''address not mapped to object''))
      else if si_code info = SEGV_ACCERR then Some ''invalid permissions for mapped object''
      else if si_code info = SEGV_BNDERR then Some ''failed address bound checks''
      else if si_code info = SEGV_PKUERR then Some ''access was denied by memory protection keys''
      else None)"

definition bus_detail :: "siginfo_t \<Rightarrow> string option" where
  "bus_detail info =
     (if si_code info = BUS_ADRALN then Some ''invalid address alignment''
      else if si_code info = BUS_ADRERR then Some ''nonexistent physical address''
      else if si_code info = BUS_OBJERR then Some ''object-specific hardware error''
      else if si_code info = BUS_MCEERR_AR then Some ''hardware memory error consumed on a machine check''
      else if si_code info = BUS_MCEERR_AO
        then Some ''hardware memory error detected in process but not consumed''
      else None)"

definition ill_detail :: "siginfo_t \<Rightarrow> string option" where
  "ill_detail info =
     (if si_code info = ILL_ILLOPC then Some ''illegal opcode''
      else if si_code info = ILL_ILLOPN then Some ''illegal operand''
      else if si_code info = ILL_ILLADR then Some ''illegal addressing mode''
      else if si_code info = ILL_ILLTRP then Some ''illegal trap''
      else if si_code info = ILL_PRVOPC then Some ''privileged opcode''
      else if si_code info = ILL_PRVREG then Some ''privileged register''
      else if si_code info = ILL_COPROC then Some ''coprocessor error''
      else if si_code info = ILL_BADSTK then Some ''internal stack error''
      else None)"

definition fpe_detail :: "siginfo_t \<Rightarrow> string option" where
  "fpe_detail info =
     (if si_code info = FPE_INTDIV then Some ''integer divide by zero''
      else if si_code info = FPE_INTOVF then Some ''integer overflow''
      else if si_code info = FPE_FLTDIV then Some ''floating-point divide by zero''
      else if si_code info = FPE_FLTOVF then Some ''floating-point overflow''
      else if si_code info = FPE_FLTUND then Some ''floating-point underflow''
      else if si_code info = FPE_FLTRES then Some ''floating-point inexact result''
      else if si_code info = FPE_FLTINV then Some ''floating-point invalid operation''
      else if si_code info = FPE_FLTSUB then Some ''subscript out of range''
      else None)"

text \<open>
  The outer switch: the locals \<^verbatim>\<open>(what, detail, addr)\<close> as they stand when
  \<^verbatim>\<open>formatReason\<close> is called. The default case prints the signal number into
  \<^verbatim>\<open>char buf[64]\<close>.
\<close>

definition signalHandler_locals ::
  "c_int \<Rightarrow> siginfo_t \<Rightarrow> ucontext_t option \<Rightarrow> string \<times> string option \<times> uintptr_t option" where
  "signalHandler_locals sig info context =
     (if sig = SIGABRT then (''std::abort()'', None, None)
      else if sig = SIGSEGV then
        (''SEGMENTATION FAULT'', segv_detail info context, Some (si_addr info))
      else if sig = SIGBUS then (''BUS ERROR'', bus_detail info, Some (si_addr info))
      else if sig = SIGILL then (''ILLEGAL INSTRUCTION'', ill_detail info, Some (si_addr info))
      else if sig = SIGFPE then (''FLOATING POINT ERROR'', fpe_detail info, Some (si_addr info))
      else (snprintf 64 (''SIGNAL '' @ show_int (sint sig)), None, None))"

definition signalHandler :: "internal_hpp \<Rightarrow> c_int \<Rightarrow> siginfo_t \<Rightarrow> ucontext_t option \<Rightarrow> abort_call" where
  "signalHandler ih sig info context =
     (let faultAddr = map_option REG_RIP context;
          (what, detail, addr) = signalHandler_locals sig info context
      in Abort (formatReason ih what detail addr) True True faultAddr)"

section \<open>The structured-exception backend\<close>

text \<open>Exception codes of \<^verbatim>\<open>winnt.h\<close>; \<^verbatim>\<open>ExceptionCode\<close> is a 32-bit \<^verbatim>\<open>DWORD\<close>.\<close>

definition EXCEPTION_ACCESS_VIOLATION :: "32 word" where "EXCEPTION_ACCESS_VIOLATION = 0xC0000005"
definition EXCEPTION_ARRAY_BOUNDS_EXCEEDED :: "32 word" where "EXCEPTION_ARRAY_BOUNDS_EXCEEDED = 0xC000008C"
definition EXCEPTION_BREAKPOINT :: "32 word" where "EXCEPTION_BREAKPOINT = 0x80000003"
definition EXCEPTION_DATATYPE_MISALIGNMENT :: "32 word" where "EXCEPTION_DATATYPE_MISALIGNMENT = 0x80000002"
definition EXCEPTION_FLT_DENORMAL_OPERAND :: "32 word" where "EXCEPTION_FLT_DENORMAL_OPERAND = 0xC000008D"
definition EXCEPTION_FLT_DIVIDE_BY_ZERO :: "32 word" where "EXCEPTION_FLT_DIVIDE_BY_ZERO = 0xC000008E"
definition EXCEPTION_FLT_INEXACT_RESULT :: "32 word" where "EXCEPTION_FLT_INEXACT_RESULT = 0xC000008F"
definition EXCEPTION_FLT_INVALID_OPERATION :: "32 word" where "EXCEPTION_FLT_INVALID_OPERATION = 0xC0000090"
definition EXCEPTION_FLT_OVERFLOW :: "32 word" where "EXCEPTION_FLT_OVERFLOW = 0xC0000091"
definition EXCEPTION_FLT_STACK_CHECK :: "32 word" where "EXCEPTION_FLT_STACK_CHECK = 0xC0000092"
definition EXCEPTION_FLT_UNDERFLOW :: "32 word" where "EXCEPTION_FLT_UNDERFLOW = 0xC0000093"
definition EXCEPTION_ILLEGAL_INSTRUCTION :: "32 word" where "EXCEPTION_ILLEGAL_INSTRUCTION = 0xC000001D"
definition EXCEPTION_IN_PAGE_ERROR :: "32 word" where "EXCEPTION_IN_PAGE_ERROR = 0xC0000006"
definition EXCEPTION_INT_DIVIDE_BY_ZERO :: "32 word" where "EXCEPTION_INT_DIVIDE_BY_ZERO = 0xC0000094"
definition EXCEPTION_INT_OVERFLOW :: "32 word" where "EXCEPTION_INT_OVERFLOW = 0xC0000095"
definition EXCEPTION_INVALID_DISPOSITION :: "32 word" where "EXCEPTION_INVALID_DISPOSITION = 0xC0000026"
definition EXCEPTION_NONCONTINUABLE_EXCEPTION :: "32 word" where "EXCEPTION_NONCONTINUABLE_EXCEPTION = 0xC0000025"
definition EXCEPTION_PRIV_INSTRUCTION :: "32 word" where "EXCEPTION_PRIV_INSTRUCTION = 0xC0000096"
definition EXCEPTION_SINGLE_STEP :: "32 word" where "EXCEPTION_SINGLE_STEP = 0x80000004"
definition EXCEPTION_STACK_OVERFLOW :: "32 word" where "EXCEPTION_STACK_OVERFLOW = 0xC00000FD"

text \<open>
  \<^verbatim>\<open>ExceptionInformation\<close> is an array of fixed size, so every index the handler reads
  exists; it is modelled by the function from index to element.
\<close>

record EXCEPTION_RECORD =
  ExceptionCode :: "32 word"
  ExceptionAddress :: uintptr_t
  NumberParameters :: "32 word"
  ExceptionInformation :: "nat \<Rightarrow> uintptr_t"

text \<open>
  The switch of \<^verbatim>\<open>onWindowsException\<close>: the locals \<^verbatim>\<open>(what, detail, addr)\<close> after it.
  \<^verbatim>\<open>%lu\<close> takes a 32-bit \<^verbatim>\<open>unsigned long\<close> on this platform, so of the 64-bit
  \<^verbatim>\<open>status\<close> the low half is printed. The diagnostic \<^verbatim>\<open>printf\<close> at the head of the
  function goes to standard output and is not part of the hand-off.
\<close>

definition onWindowsException_locals ::
  "EXCEPTION_RECORD \<Rightarrow> string \<times> string option \<times> uintptr_t option" where
  "onWindowsException_locals excRec =
     (let c = ExceptionCode excRec in
      if c = EXCEPTION_ACCESS_VIOLATION then
        (''SEGMENTATION FAULT'', None,
         if 2 \<le> NumberParameters excRec then Some (ExceptionInformation excRec 1) else None)
      else if c = EXCEPTION_ARRAY_BOUNDS_EXCEEDED then (''EXCEPTION_ARRAY_BOUNDS_EXCEEDED'', None, None)
      else if c = EXCEPTION_BREAKPOINT then (''EXCEPTION_BREAKPOINT'', None, None)
      else if c = EXCEPTION_DATATYPE_MISALIGNMENT then (''EXCEPTION_DATATYPE_MISALIGNMENT'', None, None)
      else if c = EXCEPTION_FLT_DENORMAL_OPERAND then
        (''FLOATING POINT ERROR'', Some ''floating-point denormal operand'', None)
      else if c = EXCEPTION_FLT_DIVIDE_BY_ZERO then
        (''FLOATING POINT ERROR'', Some ''floating-point divide by zero'', None)
      else if c = EXCEPTION_FLT_INEXACT_RESULT then
        (''FLOATING POINT ERROR'', Some '' (floating-point inexact result)'', None)
      else if c = EXCEPTION_FLT_INVALID_OPERATION then
        (''FLOATING POINT ERROR'', Some ''floating-point invalid operation'', None)
      else if c = EXCEPTION_FLT_OVERFLOW then
        (''FLOATING POINT ERROR'', Some ''floating-point overflow'', None)
      else if c = EXCEPTION_FLT_STACK_CHECK then
        (''FLOATING POINT ERROR'', Some ''floating-point stack over/underflow'', None)
      else if c = EXCEPTION_FLT_UNDERFLOW then
        (''FLOATING POINT ERROR'', Some ''floating-point underflow'', None)
      else if c = EXCEPTION_ILLEGAL_INSTRUCTION then (''ILLEGAL INSTRUCTION'', None, None)
      else if c = EXCEPTION_IN_PAGE_ERROR then
        (if 3 \<le> NumberParameters excRec then
           (''PAGE ERROR'',
            Some (snprintf 64 (''NTSTATUS=''
              @ show_nat (unat (ucast (ExceptionInformation excRec 2) :: 32 word)))),
            Some (ExceptionInformation excRec 1))
         else (''PAGE ERROR'', None, None))
      else if c = EXCEPTION_INT_DIVIDE_BY_ZERO then
        (''FLOATING POINT ERROR'', Some ''integer divide by zero'', None)
      else if c = EXCEPTION_INT_OVERFLOW then
        (''FLOATING POINT ERROR'', Some ''integer overflow'', None)
      else if c = EXCEPTION_INVALID_DISPOSITION then
        (''INVALID EXCEPTION HANDLER DISPOSITION'', None, None)
      else if c = EXCEPTION_NONCONTINUABLE_EXCEPTION then (''NONCONTINUABLE EXCEPTION'', None, None)
      else if c = EXCEPTION_PRIV_INSTRUCTION then (''EXCEPTION_PRIV_INSTRUCTION'', None, None)
      else if c = EXCEPTION_SINGLE_STEP then (''EXCEPTION_SINGLE_STEP'', None, None)
      else if c = EXCEPTION_STACK_OVERFLOW then (''???'', None, None)
      else (''Unrecognized Exception'',
            Some (snprintf 64 (''exception code = '' @ show_nat (unat c))), None))"

definition onWindowsException :: "internal_hpp \<Rightarrow> EXCEPTION_RECORD \<Rightarrow> abort_call" where
  "onWindowsException ih excRec =
     (let (what, detail, addr) = onWindowsException_locals excRec in
      if ExceptionCode excRec \<noteq> EXCEPTION_STACK_OVERFLOW
      then Abort (formatReason ih what detail addr) True True (Some (ExceptionAddress excRec))
      else Abort (REASON_PREFIX ih @ ''SEGMENTATION FAULT (stack overflow)'') False True None)"

definition onAbort :: "internal_hpp \<Rightarrow> c_int \<Rightarrow> abort_call" where
  "onAbort ih sig = Abort (formatReason ih ''std::abort()'' None None) True True None"

section \<open>The terminate handler\<close>

text \<open>
  The in-flight exception is visible to \<^verbatim>\<open>onTerminate\<close> only through its catch clauses.
  Each field is what one clause would bind: \<open>None\<close> when the thrown object does not match
  the clause's type. A \<^verbatim>\<open>const char*\<close> may be null, hence the nested option.
\<close>

record error_code =
  ec_message :: string
  ec_category_name :: string
  ec_value :: c_int

record std_exception =
  typeid_name :: string
  exc_what :: string

record exception_ptr =
  as_system_error :: "error_code option"
  as_std_exception :: "std_exception option"
  as_const_char_ptr :: "string option option"

text \<open>
  The try block: the contents of \<^verbatim>\<open>char detail[128]\<close> after the first matching clause.
  \<^verbatim>\<open>demangle\<close> is declared in the missing private header; the function from mangled to
  displayed name is a parameter, and the call site bounds its output by
  \<^verbatim>\<open>sizeof(className)\<close>.
\<close>

definition onTerminate_detail :: "(string \<Rightarrow> string) \<Rightarrow> exception_ptr \<Rightarrow> string" where
  "onTerminate_detail demangle exc =
     (case as_system_error exc of
        Some err \<Rightarrow>
          snprintf 128 (''std::system_error: \"'' @ ec_message err @ ''\" (''
            @ ec_category_name err @ '':'' @ show_int (sint (ec_value err)) @ '')'')
      | None \<Rightarrow>
     (case as_std_exception exc of
        Some e \<Rightarrow>
          (let className = snprintf 128 (demangle (typeid_name e))
           in snprintf 128 (className @ '': \"'' @ exc_what e @ ''\"''))
      | None \<Rightarrow>
     (case as_const_char_ptr exc of
        Some err \<Rightarrow>
          snprintf 128 (''exception (const char*): \"''
            @ (case err of None \<Rightarrow> ''<null>'' | Some t \<Rightarrow> t) @ ''\"'')
      | None \<Rightarrow> ''unknown exception'')))"

text \<open>
  \<^verbatim>\<open>onTerminate\<close> in the build without \<^verbatim>\<open>_WIN32\<close>; \<open>None\<close> is a null
  \<^verbatim>\<open>std::current_exception()\<close>.
\<close>

definition onTerminate :: "internal_hpp \<Rightarrow> (string \<Rightarrow> string) \<Rightarrow> exception_ptr option \<Rightarrow> abort_call" where
  "onTerminate ih demangle currentException =
     (let stackTrace = True; inSignalHandler = False in
      case currentException of
        Some exc \<Rightarrow>
          Abort (formatReason ih ''std::terminate()'' (Some (onTerminate_detail demangle exc)) None)
            stackTrace inSignalHandler None
      | None \<Rightarrow> Abort (formatReason ih ''std::terminate()'' None None) True False None)"

section \<open>Registration\<close>

text \<open>
  What the constructor asks of the operating system, and what it gets back: the value of
  the environment variable (\<open>None\<close> when unset), and for each registration call \<open>None\<close> on
  success or the \<^verbatim>\<open>errno\<close> it leaves on failure.
\<close>

record os_env =
  getenv_OOOPSI_DISABLE_HANDLERS :: "string option"
  sigaltstack_errno :: "c_int option"
  sigaction_errno :: "c_int \<Rightarrow> c_int option"
  strerror :: "c_int \<Rightarrow> string"

datatype os_call =
  Set_terminate
| SetUnhandledExceptionFilter
| Signal_onAbort c_int
| Sigaltstack "64 word"
| Sigaction c_int

text \<open>Process-wide state: the flag \<^verbatim>\<open>s_handlersRegistered\<close> and the registration calls made so far.\<close>

record process =
  s_handlersRegistered :: bool
  os_calls :: "os_call list"

datatype outcome = Returned | Aborted abort_call

text \<open>
  The lambda \<^verbatim>\<open>err\<close>. Its \<^verbatim>\<open>int\<close> parameter receives \<^verbatim>\<open>s_ALT_STACK_SIZE\<close> narrowed, or the
  signal number.
\<close>

definition err :: "os_env \<Rightarrow> c_int \<Rightarrow> string \<Rightarrow> c_int \<Rightarrow> abort_call" where
  "err os errno what param =
     Abort (snprintf 256 (what @ ''('' @ show_int (sint param) @ '') failed: '' @ strerror os errno))
       True False None"

text \<open>The loop over the fatal signals; it stops at the first failing \<^verbatim>\<open>sigaction\<close>.\<close>

fun catch_signals :: "os_env \<Rightarrow> c_int list \<Rightarrow> process \<Rightarrow> process \<times> outcome" where
  "catch_signals os [] p = (p, Returned)"
| "catch_signals os (sig # sigs) p =
     (let p' = p\<lparr>os_calls := os_calls p @ [Sigaction sig]\<rparr> in
      case sigaction_errno os sig of
        Some e \<Rightarrow> (p', Aborted (err os e ''sigaction'' sig))
      | None \<Rightarrow> catch_signals os sigs p')"

definition fatal_signals :: "c_int list" where
  "fatal_signals = [SIGABRT, SIGSEGV, SIGBUS, SIGILL, SIGFPE]"

text \<open>The constructor in the build without \<^verbatim>\<open>_WIN32\<close>.\<close>

definition HandlerSetup :: "internal_hpp \<Rightarrow> os_env \<Rightarrow> process \<Rightarrow> process \<times> outcome" where
  "HandlerSetup ih os p =
     (if getenv_OOOPSI_DISABLE_HANDLERS os = Some ''1'' then (p, Returned)
      else if s_handlersRegistered p then (p, Returned)
      else
        (let p1 = p\<lparr>s_handlersRegistered := True\<rparr>;
             p2 = p1\<lparr>os_calls := os_calls p1 @ [Set_terminate]\<rparr>;
             p3 = p2\<lparr>os_calls := os_calls p2 @ [Sigaltstack (s_ALT_STACK_SIZE ih)]\<rparr>
         in case sigaltstack_errno os of
              Some e \<Rightarrow> (p3, Aborted (err os e ''sigaltstack'' (ucast (s_ALT_STACK_SIZE ih))))
            | None \<Rightarrow> catch_signals os fatal_signals p3))"

text \<open>The constructor in the build with \<^verbatim>\<open>_WIN32\<close>; the result of \<^verbatim>\<open>signal\<close> is not read.\<close>

definition HandlerSetup_win32 :: "os_env \<Rightarrow> process \<Rightarrow> process \<times> outcome" where
  "HandlerSetup_win32 os p =
     (if getenv_OOOPSI_DISABLE_HANDLERS os = Some ''1'' then (p, Returned)
      else if s_handlersRegistered p then (p, Returned)
      else
        (p\<lparr>s_handlersRegistered := True,
           os_calls := os_calls p @ [Set_terminate, SetUnhandledExceptionFilter, Signal_onAbort SIGABRT]\<rparr>,
         Returned))"

section \<open>Auxiliary facts\<close>

lemmas signal_defs = SIGILL_def SIGABRT_def SIGBUS_def SIGFPE_def SIGSEGV_def
lemmas segv_defs = SEGV_MAPERR_def SEGV_ACCERR_def SEGV_BNDERR_def SEGV_PKUERR_def
lemmas bus_defs = BUS_ADRALN_def BUS_ADRERR_def BUS_OBJERR_def BUS_MCEERR_AR_def BUS_MCEERR_AO_def
lemmas ill_defs = ILL_ILLOPC_def ILL_ILLOPN_def ILL_ILLADR_def ILL_ILLTRP_def ILL_PRVOPC_def
  ILL_PRVREG_def ILL_COPROC_def ILL_BADSTK_def
lemmas fpe_defs = FPE_INTDIV_def FPE_INTOVF_def FPE_FLTDIV_def FPE_FLTOVF_def FPE_FLTUND_def
  FPE_FLTRES_def FPE_FLTINV_def FPE_FLTSUB_def
lemmas exception_defs = EXCEPTION_ACCESS_VIOLATION_def EXCEPTION_ARRAY_BOUNDS_EXCEEDED_def
  EXCEPTION_BREAKPOINT_def EXCEPTION_DATATYPE_MISALIGNMENT_def EXCEPTION_FLT_DENORMAL_OPERAND_def
  EXCEPTION_FLT_DIVIDE_BY_ZERO_def EXCEPTION_FLT_INEXACT_RESULT_def
  EXCEPTION_FLT_INVALID_OPERATION_def EXCEPTION_FLT_OVERFLOW_def EXCEPTION_FLT_STACK_CHECK_def
  EXCEPTION_FLT_UNDERFLOW_def EXCEPTION_ILLEGAL_INSTRUCTION_def EXCEPTION_IN_PAGE_ERROR_def
  EXCEPTION_INT_DIVIDE_BY_ZERO_def EXCEPTION_INT_OVERFLOW_def EXCEPTION_INVALID_DISPOSITION_def
  EXCEPTION_NONCONTINUABLE_EXCEPTION_def EXCEPTION_PRIV_INSTRUCTION_def EXCEPTION_SINGLE_STEP_def
  EXCEPTION_STACK_OVERFLOW_def

lemma catch_signals_ok:
  "\<forall>s\<in>set sigs. sigaction_errno os s = None \<Longrightarrow>
   catch_signals os sigs p = (p\<lparr>os_calls := os_calls p @ map Sigaction sigs\<rparr>, Returned)"
  by (induction sigs arbitrary: p) (simp_all add: Let_def)

lemma catch_signals_fail:
  "sig \<in> set sigs \<Longrightarrow> sigaction_errno os sig = Some e \<Longrightarrow>
   \<forall>s\<in>set (takeWhile (\<lambda>s. s \<noteq> sig) sigs). sigaction_errno os s = None \<Longrightarrow>
   catch_signals os sigs p =
     (p\<lparr>os_calls := os_calls p @ map Sigaction (takeWhile (\<lambda>s. s \<noteq> sig) sigs @ [sig])\<rparr>,
      Aborted (err os e ''sigaction'' sig))"
proof (induction sigs arbitrary: p)
  case Nil
  then show ?case by simp
next
  case (Cons s sigs)
  show ?case
  proof (cases "s = sig")
    case True
    then show ?thesis using Cons.prems(2) by (simp add: Let_def)
  next
    case False
    with Cons.prems have "sig \<in> set sigs" and "sigaction_errno os s = None"
      and "\<forall>s\<in>set (takeWhile (\<lambda>s. s \<noteq> sig) sigs). sigaction_errno os s = None"
      by simp_all
    with Cons.IH[of "p\<lparr>os_calls := os_calls p @ [Sigaction s]\<rparr>"] False Cons.prems(2)
    show ?thesis by (simp add: Let_def)
  qed
qed

lemma catch_signals_Returned_iff:
  "snd (catch_signals os sigs p) = Returned \<longleftrightarrow> (\<forall>s\<in>set sigs. sigaction_errno os s = None)"
  by (induction sigs arbitrary: p) (auto simp: Let_def split: option.splits)

lemma HandlerSetup_disabled:
  "getenv_OOOPSI_DISABLE_HANDLERS os = Some ''1'' \<Longrightarrow> HandlerSetup ih os p = (p, Returned)"
  by (simp add: HandlerSetup_def)

lemma HandlerSetup_registered:
  "s_handlersRegistered p \<Longrightarrow> HandlerSetup ih os p = (p, Returned)"
  by (simp add: HandlerSetup_def)

lemma HandlerSetup_install:
  assumes "getenv_OOOPSI_DISABLE_HANDLERS os \<noteq> Some ''1''" "\<not> s_handlersRegistered p"
    "sigaltstack_errno os = None" "\<forall>s\<in>set fatal_signals. sigaction_errno os s = None"
  shows "HandlerSetup ih os p =
     (p\<lparr>s_handlersRegistered := True,
        os_calls := os_calls p @ [Set_terminate, Sigaltstack (s_ALT_STACK_SIZE ih)]
                      @ map Sigaction fatal_signals\<rparr>, Returned)"
  using assms by (simp add: HandlerSetup_def Let_def catch_signals_ok)

lemma catch_signals_getenv:
  "catch_signals (os\<lparr>getenv_OOOPSI_DISABLE_HANDLERS := v\<rparr>) sigs p = catch_signals os sigs p"
  by (induction sigs arbitrary: p) (simp_all add: Let_def err_def split: option.splits)

lemma HandlerSetup_env_irrelevant:
  "getenv_OOOPSI_DISABLE_HANDLERS os \<noteq> Some ''1'' \<Longrightarrow>
   HandlerSetup ih os p = HandlerSetup ih (os\<lparr>getenv_OOOPSI_DISABLE_HANDLERS := None\<rparr>) p"
  by (simp add: HandlerSetup_def Let_def err_def catch_signals_getenv split: option.splits)

lemma show_nat_length: "0 < k \<Longrightarrow> n < 10 ^ k \<Longrightarrow> length (show_nat n) \<le> k"
proof (induction n arbitrary: k rule: show_nat.induct)
  case (1 n)
  show ?case
  proof (cases "n < 10")
    case True
    then show ?thesis using 1(2) by (simp add: show_nat.simps)
  next
    case False
    with 1(2,3) have "1 < k" by (cases "k = 1") (auto simp: not_less)
    then obtain j where k: "k = Suc j" "0 < j" by (cases k) auto
    have "n div 10 < 10 ^ j" using 1(3) k by (simp add: less_mult_imp_div_less mult.commute)
    from 1(1)[OF False k(2) this] show ?thesis using False k by (simp add: show_nat.simps[of n])
  qed
qed

lemma show_int_sint_length: "length (show_int (sint (w::32 word))) \<le> 11"
proof -
  have b: "- (2 ^ 31) \<le> sint w" "sint w < 2 ^ 31"
    using sint_ge[of w] sint_lt[of w] by simp_all
  show ?thesis
  proof (cases "sint w < 0")
    case True
    have "nat (- sint w) < 10 ^ 10" using b by simp
    from show_nat_length[OF _ this] True show ?thesis by (simp add: show_int_def)
  next
    case False
    have "nat (sint w) < 10 ^ 10" using b by simp
    from show_nat_length[OF _ this] False show ?thesis by (simp add: show_int_def)
  qed
qed

lemma prefix_take_append: "length xs \<le> n \<Longrightarrow> prefix xs (take n (xs @ ys))"
  by (simp add: prefix_def)

lemma snprintf_fits: "length s < n \<Longrightarrow> snprintf n s = s"
  by (simp add: snprintf_def)

lemma snprintf_prefix: "prefix (snprintf n s) s"
  by (simp add: snprintf_def take_is_prefix)

lemma snprintf_length: "0 < n \<Longrightarrow> length (snprintf n s) < n"
  by (simp add: snprintf_def)

lemma err_reason_fits:
  assumes "length what \<le> 11" "length (strerror os e) \<le> 222"
  shows "reason (err os e what param) =
           what @ ''('' @ show_int (sint param) @ '') failed: '' @ strerror os e"
proof -
  have "length (what @ ''('' @ show_int (sint param) @ '') failed: '' @ strerror os e) < 256"
    using assms show_int_sint_length[of param] by simp
  then show ?thesis unfolding err_def abort_call.sel by (rule snprintf_fits)
qed

lemma signalHandler_locals_SIGFPE_INTDIV:
  "si_code info = FPE_INTDIV \<Longrightarrow>
   signalHandler_locals SIGFPE info context =
     (''FLOATING POINT ERROR'', Some ''integer divide by zero'', Some (si_addr info))"
  by (simp add: signalHandler_locals_def signal_defs fpe_detail_def)

lemma catch_signals_flag:
  "s_handlersRegistered (fst (catch_signals os sigs p)) = s_handlersRegistered p"
  by (induction sigs arbitrary: p) (simp_all add: Let_def split: option.splits)

lemma HandlerSetup_sets_flag:
  "getenv_OOOPSI_DISABLE_HANDLERS os \<noteq> Some ''1'' \<Longrightarrow> s_handlersRegistered (fst (HandlerSetup ih os p))"
  by (simp add: HandlerSetup_def Let_def catch_signals_flag split: option.splits)

lemma fatal_signals_map:
  "map Sigaction fatal_signals =
     [Sigaction SIGABRT, Sigaction SIGSEGV, Sigaction SIGBUS, Sigaction SIGILL, Sigaction SIGFPE]"
  by (simp add: fatal_signals_def)

lemma sublist_mid: "ys = ps @ xs @ ss \<Longrightarrow> sublist xs ys"
  by simp

section \<open>The fault handlers\<close>

text \<open>
  Claim C1 as stated says that the POSIX hand-off requests no stack trace once the fault is
  classified as a stack overflow. A fault eight bytes below the stack pointer is classified
  so, and the hand-off requests the trace all the same.
\<close>

theorem signalHandler_stack_overflow_requests_trace:
  "\<not> (fst (snd (signalHandler_locals SIGSEGV \<lparr>si_code = SEGV_MAPERR, si_addr = 0x1FF8\<rparr>
                 (Some \<lparr>REG_RIP = 0x401136, REG_RSP = 0x2000\<rparr>))) = Some ''stack overflow''
      \<longrightarrow> \<not> printTrace (signalHandler \<lparr>REASON_PREFIX = ''!!! '', s_ALT_STACK_SIZE = 8192\<rparr> SIGSEGV
                 \<lparr>si_code = SEGV_MAPERR, si_addr = 0x1FF8\<rparr>
                 (Some \<lparr>REG_RIP = 0x401136, REG_RSP = 0x2000\<rparr>)))"
  by (simp add: signalHandler_def signalHandler_locals_def signal_defs segv_detail_def
      rangeLimit_def SEGV_MAPERR_def split_def)

text \<open>
  Claim C1, as amended. The POSIX handler asks for a stack trace at every hand-off, whatever
  the signal and the classification: the second argument of \<^verbatim>\<open>abort\<close> is the literal
  \<^verbatim>\<open>true\<close>, and the handler runs on the alternate stack. The structured-exception backend
  asks for a stack trace exactly when the code is not \<^verbatim>\<open>EXCEPTION_STACK_OVERFLOW\<close>; for that
  code it hands off the fixed reason "SEGMENTATION FAULT (stack overflow)" without a trace and
  without an address.
\<close>

theorem stack_trace_request:
  "printTrace (signalHandler ih sig info context)
   \<and> (printTrace (onWindowsException ih excRec) \<longleftrightarrow> ExceptionCode excRec \<noteq> EXCEPTION_STACK_OVERFLOW)
   \<and> (ExceptionCode excRec = EXCEPTION_STACK_OVERFLOW \<longrightarrow>
        onWindowsException ih excRec =
          Abort (REASON_PREFIX ih @ ''SEGMENTATION FAULT (stack overflow)'') False True None)"
  by (simp add: signalHandler_def onWindowsException_def split_def Let_def)

text \<open>The statement of C1 at a POSIX stack overflow and at \<^verbatim>\<open>EXCEPTION_STACK_OVERFLOW\<close>.\<close>

theorem stack_trace_request_witness:
  "printTrace (signalHandler \<lparr>REASON_PREFIX = ''!!! '', s_ALT_STACK_SIZE = 8192\<rparr> SIGSEGV
      \<lparr>si_code = SEGV_MAPERR, si_addr = 0x1FF8\<rparr> (Some \<lparr>REG_RIP = 0x401136, REG_RSP = 0x2000\<rparr>))
   \<and> \<not> printTrace (onWindowsException \<lparr>REASON_PREFIX = ''!!! '', s_ALT_STACK_SIZE = 8192\<rparr>
      \<lparr>ExceptionCode = 0xC00000FD, ExceptionAddress = 0x401136, NumberParameters = 0,
       ExceptionInformation = (\<lambda>_. 0)\<rparr>)
   \<and> onWindowsException \<lparr>REASON_PREFIX = ''!!! '', s_ALT_STACK_SIZE = 8192\<rparr>
      \<lparr>ExceptionCode = 0xC00000FD, ExceptionAddress = 0x401136, NumberParameters = 0,
       ExceptionInformation = (\<lambda>_. 0)\<rparr> = Abort ''!!! SEGMENTATION FAULT (stack overflow)'' False True None"
  using stack_trace_request [of "\<lparr>REASON_PREFIX = ''!!! '', s_ALT_STACK_SIZE = 8192\<rparr>" SIGSEGV
      "\<lparr>si_code = SEGV_MAPERR, si_addr = 0x1FF8\<rparr>" "Some \<lparr>REG_RIP = 0x401136, REG_RSP = 0x2000\<rparr>"
      "\<lparr>ExceptionCode = 0xC00000FD, ExceptionAddress = 0x401136, NumberParameters = 0,
       ExceptionInformation = (\<lambda>_. 0)\<rparr>"]
  by (simp add: EXCEPTION_STACK_OVERFLOW_def)

text \<open>
  Claim C2. For \<^verbatim>\<open>SIGSEGV\<close> with sub-reason \<^verbatim>\<open>SEGV_MAPERR\<close> and a register context, the
  detail is "stack overflow" exactly when the faulting address is strictly below the stack
  pointer and less than 1024 bytes away from it (as numbers, not modulo \<open>2^64\<close>), and
  "address not mapped to object" otherwise. For every other sub-reason the detail is never
  "stack overflow"; \<^verbatim>\<open>SEGV_ACCERR\<close>, \<^verbatim>\<open>SEGV_BNDERR\<close> and \<^verbatim>\<open>SEGV_PKUERR\<close> keep their own
  details, with or without a context.
\<close>

theorem segv_stack_overflow_heuristic:
  "(si_code info = SEGV_MAPERR \<longrightarrow>
      fst (snd (signalHandler_locals SIGSEGV info (Some c))) =
        Some (if unat (si_addr info) < unat (REG_RSP c)
                 \<and> unat (REG_RSP c) - unat (si_addr info) < 1024
              then ''stack overflow'' else ''address not mapped to object''))
   \<and> (si_code info \<noteq> SEGV_MAPERR \<longrightarrow>
      fst (snd (signalHandler_locals SIGSEGV info context)) \<noteq> Some ''stack overflow'')
   \<and> (si_code info = SEGV_ACCERR \<longrightarrow>
      fst (snd (signalHandler_locals SIGSEGV info context)) = Some ''invalid permissions for mapped object'')
   \<and> (si_code info = SEGV_BNDERR \<longrightarrow>
      fst (snd (signalHandler_locals SIGSEGV info context)) = Some ''failed address bound checks'')
   \<and> (si_code info = SEGV_PKUERR \<longrightarrow>
      fst (snd (signalHandler_locals SIGSEGV info context)) = Some ''access was denied by memory protection keys'')"
proof (intro conjI impI)
  assume "si_code info = SEGV_MAPERR"
  then show "fst (snd (signalHandler_locals SIGSEGV info (Some c))) =
        Some (if unat (si_addr info) < unat (REG_RSP c)
                 \<and> unat (REG_RSP c) - unat (si_addr info) < 1024
              then ''stack overflow'' else ''address not mapped to object'')"
    by (clarsimp simp: signalHandler_locals_def signal_defs segv_detail_def rangeLimit_def
        Let_def word_less_nat_alt unat_sub word_le_nat_alt)
qed (simp_all add: signalHandler_locals_def signal_defs segv_detail_def segv_defs)

text \<open>C2 at a fault just below the stack pointer, at one far from it, and at \<^verbatim>\<open>SEGV_ACCERR\<close>.\<close>

theorem segv_stack_overflow_heuristic_witness:
  "fst (snd (signalHandler_locals SIGSEGV \<lparr>si_code = 1, si_addr = 0x1FF8\<rparr>
       (Some \<lparr>REG_RIP = 0x401136, REG_RSP = 0x2000\<rparr>))) = Some ''stack overflow''
   \<and> fst (snd (signalHandler_locals SIGSEGV \<lparr>si_code = 1, si_addr = 0x12345678\<rparr>
       (Some \<lparr>REG_RIP = 0x401136, REG_RSP = 0x2000\<rparr>))) = Some ''address not mapped to object''
   \<and> fst (snd (signalHandler_locals SIGSEGV \<lparr>si_code = 2, si_addr = 0x1FF8\<rparr>
       (Some \<lparr>REG_RIP = 0x401136, REG_RSP = 0x2000\<rparr>))) = Some ''invalid permissions for mapped object''"
  using segv_stack_overflow_heuristic [of "\<lparr>si_code = 1, si_addr = 0x1FF8\<rparr>"
      "\<lparr>REG_RIP = 0x401136, REG_RSP = 0x2000\<rparr>" "Some \<lparr>REG_RIP = 0x401136, REG_RSP = 0x2000\<rparr>"]
    segv_stack_overflow_heuristic [of "\<lparr>si_code = 1, si_addr = 0x12345678\<rparr>"
      "\<lparr>REG_RIP = 0x401136, REG_RSP = 0x2000\<rparr>" "Some \<lparr>REG_RIP = 0x401136, REG_RSP = 0x2000\<rparr>"]
    segv_stack_overflow_heuristic [of "\<lparr>si_code = 2, si_addr = 0x1FF8\<rparr>"
      "\<lparr>REG_RIP = 0x401136, REG_RSP = 0x2000\<rparr>" "Some \<lparr>REG_RIP = 0x401136, REG_RSP = 0x2000\<rparr>"]
  by (simp add: segv_defs)

text \<open>
  Claim C7. A \<^verbatim>\<open>SIGFPE\<close> with sub-reason \<^verbatim>\<open>FPE_INTDIV\<close> has category "FLOATING POINT ERROR"
  and detail "integer divide by zero"; the reason handed off begins with the prefix followed
  by \<^verbatim>\<open>FLOATING POINT ERROR (integer divide by zero\<close>, provided the prefix leaves these 44
  characters room in the 256-byte reason buffer.
\<close>

theorem sigfpe_intdiv_report:
  assumes "si_code info = FPE_INTDIV"
  shows "signalHandler_locals SIGFPE info context =
           (''FLOATING POINT ERROR'', Some ''integer divide by zero'', Some (si_addr info))
       \<and> (length (REASON_PREFIX ih) + 44 \<le> 255 \<longrightarrow>
           prefix (REASON_PREFIX ih @ ''FLOATING POINT ERROR (integer divide by zero'')
             (reason (signalHandler ih SIGFPE info context)))"
proof (intro conjI impI)
  show l: "signalHandler_locals SIGFPE info context =
           (''FLOATING POINT ERROR'', Some ''integer divide by zero'', Some (si_addr info))"
    using assms by (rule signalHandler_locals_SIGFPE_INTDIV)
  assume b: "length (REASON_PREFIX ih) + 44 \<le> 255"
  let ?head = "REASON_PREFIX ih @ ''FLOATING POINT ERROR (integer divide by zero''"
  let ?rest = "'')'' @ '', address 0x'' @ show_hex (unat (si_addr info))"
  have r: "reason (signalHandler ih SIGFPE info context) = take 255 (?head @ ?rest)"
    by (simp add: signalHandler_def l formatReason_def snprintf_def del: take_append)
  have "length ?head \<le> 255" using b by simp
  then show "prefix ?head (reason (signalHandler ih SIGFPE info context))"
    unfolding r by (rule prefix_take_append)
qed

text \<open>C7 at a division fault with a four-character prefix.\<close>

theorem sigfpe_intdiv_report_witness:
  "signalHandler_locals SIGFPE \<lparr>si_code = 1, si_addr = 0x401136\<rparr> None =
     (''FLOATING POINT ERROR'', Some ''integer divide by zero'', Some 0x401136)
   \<and> prefix ''!!! FLOATING POINT ERROR (integer divide by zero''
       (reason (signalHandler \<lparr>REASON_PREFIX = ''!!! '', s_ALT_STACK_SIZE = 8192\<rparr> SIGFPE
          \<lparr>si_code = 1, si_addr = 0x401136\<rparr> None))"
  using sigfpe_intdiv_report [of "\<lparr>si_code = 1, si_addr = 0x401136\<rparr>" None
      "\<lparr>REASON_PREFIX = ''!!! '', s_ALT_STACK_SIZE = 8192\<rparr>"]
  by (simp add: FPE_INTDIV_def)

text \<open>
  Claim C8 at \<^verbatim>\<open>EXCEPTION_FLT_INEXACT_RESULT\<close>: the detail handed to the formatter begins with
  a space and brings its own pair of parentheses, where the POSIX handler's detail for the
  same condition (\<^verbatim>\<open>FPE_FLTRES\<close>) is the bare text.
\<close>

theorem onWindowsException_inexact_result_detail:
  "onWindowsException_locals \<lparr>ExceptionCode = EXCEPTION_FLT_INEXACT_RESULT,
       ExceptionAddress = 0x401136, NumberParameters = 0, ExceptionInformation = (\<lambda>_. 0)\<rparr> =
     (''FLOATING POINT ERROR'', Some '' (floating-point inexact result)'', None)
   \<and> signalHandler_locals SIGFPE \<lparr>si_code = FPE_FLTRES, si_addr = 0x401136\<rparr> None =
     (''FLOATING POINT ERROR'', Some ''floating-point inexact result'', Some 0x401136)"
  by (simp add: onWindowsException_locals_def exception_defs signalHandler_locals_def signal_defs
      fpe_detail_def fpe_defs)

text \<open>
  Claim C9. For a signal number outside \<^verbatim>\<open>SIGABRT\<close>, \<^verbatim>\<open>SIGSEGV\<close>, \<^verbatim>\<open>SIGBUS\<close>, \<^verbatim>\<open>SIGILL\<close>,
  \<^verbatim>\<open>SIGFPE\<close> the handler still hands off: the category is "SIGNAL n" with \<open>n\<close> the signal
  number in decimal (it always fits the 64-byte buffer), there is no detail and no address.
\<close>

theorem signalHandler_unregistered_signal:
  assumes "sig \<notin> {SIGABRT, SIGSEGV, SIGBUS, SIGILL, SIGFPE}"
  shows "signalHandler_locals sig info context = (''SIGNAL '' @ show_int (sint sig), None, None)
       \<and> signalHandler ih sig info context =
           Abort (formatReason ih (''SIGNAL '' @ show_int (sint sig)) None None) True True
             (map_option REG_RIP context)"
  using assms show_int_sint_length[of sig]
  by (simp add: signalHandler_def signalHandler_locals_def snprintf_def Let_def)

text \<open>C9 at signal 10.\<close>

theorem signalHandler_unregistered_signal_witness:
  "(10 :: c_int) \<notin> {SIGABRT, SIGSEGV, SIGBUS, SIGILL, SIGFPE}
   \<and> signalHandler_locals 10 \<lparr>si_code = 0, si_addr = 0\<rparr> None = (''SIGNAL 10'', None, None)
   \<and> signalHandler \<lparr>REASON_PREFIX = ''!!! '', s_ALT_STACK_SIZE = 8192\<rparr> 10
        \<lparr>si_code = 0, si_addr = 0\<rparr> None = Abort ''!!! SIGNAL 10'' True True None"
  using signalHandler_unregistered_signal [of 10 "\<lparr>si_code = 0, si_addr = 0\<rparr>" None
      "\<lparr>REASON_PREFIX = ''!!! '', s_ALT_STACK_SIZE = 8192\<rparr>"]
  by (simp add: signal_defs formatReason_def snprintf_def show_int_def show_nat.simps digit_char_def)

section \<open>The terminate handler: classification\<close>

lemma snprintf_128_length: "length (snprintf 128 s) \<le> 127"
  by (simp add: snprintf_def)

lemma onTerminate_detail_length: "length (onTerminate_detail demangle exc) \<le> 127"
  by (cases "as_system_error exc"; cases "as_std_exception exc"; cases "as_const_char_ptr exc")
    (simp_all add: onTerminate_detail_def Let_def snprintf_128_length)

lemma onTerminate_detail_system_error:
  "as_system_error exc = Some ec \<Longrightarrow>
   onTerminate_detail demangle exc =
     take 127 (''std::system_error: \"'' @ ec_message ec @ ''\" ('' @ ec_category_name ec
       @ '':'' @ show_int (sint (ec_value ec)) @ '')'')"
  by (simp add: onTerminate_detail_def snprintf_def)

lemma onTerminate_detail_std_exception:
  "as_system_error exc = None \<Longrightarrow> as_std_exception exc = Some e \<Longrightarrow>
   onTerminate_detail demangle exc =
     take 127 (take 127 (demangle (typeid_name e)) @ '': \"'' @ exc_what e @ ''\"'')"
  by (simp add: onTerminate_detail_def snprintf_def Let_def del: take_append)

lemma onTerminate_detail_const_char_ptr:
  "as_system_error exc = None \<Longrightarrow> as_std_exception exc = None \<Longrightarrow>
   as_const_char_ptr exc = Some p \<Longrightarrow>
   onTerminate_detail demangle exc =
     take 127 (''exception (const char*): \"''
       @ (case p of None \<Rightarrow> ''<null>'' | Some t \<Rightarrow> t) @ ''\"'')"
  by (simp add: onTerminate_detail_def snprintf_def del: take_append)

lemma onTerminate_detail_unknown:
  "as_system_error exc = None \<Longrightarrow> as_std_exception exc = None \<Longrightarrow>
   as_const_char_ptr exc = None \<Longrightarrow> onTerminate_detail demangle exc = ''unknown exception''"
  by (simp add: onTerminate_detail_def)

text \<open>
  Claim C3 as stated promises, for every \<^verbatim>\<open>std::system_error\<close>, a detail that contains the
  message, the category name and the numeric code. The detail is written into
  \<^verbatim>\<open>char detail[128]\<close>: with a message of 200 characters, the category name "generic" is
  cut off.
\<close>

theorem onTerminate_long_message_truncated:
  "\<not> (sublist (replicate 200 (CHR ''x''))
        (onTerminate_detail (\<lambda>n. n)
          \<lparr>as_system_error = Some \<lparr>ec_message = replicate 200 (CHR ''x''),
             ec_category_name = ''generic'', ec_value = 32\<rparr>,
           as_std_exception = Some \<lparr>typeid_name = ''St12system_error'',
             exc_what = replicate 200 (CHR ''x'')\<rparr>,
           as_const_char_ptr = None\<rparr>)
      \<and> sublist ''generic''
        (onTerminate_detail (\<lambda>n. n)
          \<lparr>as_system_error = Some \<lparr>ec_message = replicate 200 (CHR ''x''),
             ec_category_name = ''generic'', ec_value = 32\<rparr>,
           as_std_exception = Some \<lparr>typeid_name = ''St12system_error'',
             exc_what = replicate 200 (CHR ''x'')\<rparr>,
           as_const_char_ptr = None\<rparr>)
      \<and> sublist ''32''
        (onTerminate_detail (\<lambda>n. n)
          \<lparr>as_system_error = Some \<lparr>ec_message = replicate 200 (CHR ''x''),
             ec_category_name = ''generic'', ec_value = 32\<rparr>,
           as_std_exception = Some \<lparr>typeid_name = ''St12system_error'',
             exc_what = replicate 200 (CHR ''x'')\<rparr>,
           as_const_char_ptr = None\<rparr>))"
proof
  assume "sublist (replicate 200 (CHR ''x''))
        (onTerminate_detail (\<lambda>n. n)
          \<lparr>as_system_error = Some \<lparr>ec_message = replicate 200 (CHR ''x''),
             ec_category_name = ''generic'', ec_value = 32\<rparr>,
           as_std_exception = Some \<lparr>typeid_name = ''St12system_error'',
             exc_what = replicate 200 (CHR ''x'')\<rparr>,
           as_const_char_ptr = None\<rparr>)
      \<and> sublist ''generic''
        (onTerminate_detail (\<lambda>n. n)
          \<lparr>as_system_error = Some \<lparr>ec_message = replicate 200 (CHR ''x''),
             ec_category_name = ''generic'', ec_value = 32\<rparr>,
           as_std_exception = Some \<lparr>typeid_name = ''St12system_error'',
             exc_what = replicate 200 (CHR ''x'')\<rparr>,
           as_const_char_ptr = None\<rparr>)
      \<and> sublist ''32''
        (onTerminate_detail (\<lambda>n. n)
          \<lparr>as_system_error = Some \<lparr>ec_message = replicate 200 (CHR ''x''),
             ec_category_name = ''generic'', ec_value = 32\<rparr>,
           as_std_exception = Some \<lparr>typeid_name = ''St12system_error'',
             exc_what = replicate 200 (CHR ''x'')\<rparr>,
           as_const_char_ptr = None\<rparr>)"
  then have "set ''generic'' \<subseteq> set (onTerminate_detail (\<lambda>n. n)
          \<lparr>as_system_error = Some \<lparr>ec_message = replicate 200 (CHR ''x''),
             ec_category_name = ''generic'', ec_value = 32\<rparr>,
           as_std_exception = Some \<lparr>typeid_name = ''St12system_error'',
             exc_what = replicate 200 (CHR ''x'')\<rparr>,
           as_const_char_ptr = None\<rparr>)"
    by (intro set_mono_sublist) simp
  then show False
    by (simp add: onTerminate_detail_def snprintf_def)
qed

text \<open>
  Claim C3, as amended. For every in-flight exception the terminate handler hands off with
  category \<^verbatim>\<open>std::terminate()\<close>, a stack trace requested, outside signal context, and a
  detail of at most 127 characters chosen by the first matching clause:
  (a) a \<^verbatim>\<open>std::system_error\<close> gives the first 127 characters of
  \<^verbatim>\<open>std::system_error: "message" (category:code)\<close>, whatever the other clauses would match;
  (b) any other \<^verbatim>\<open>std::exception\<close> gives the first 127 characters of
  \<^verbatim>\<open>class: "message"\<close> with the demangled class name;
  (c) a \<^verbatim>\<open>const char*\<close> gives the first 127 characters of
  \<^verbatim>\<open>exception (const char*): "text"\<close>, the text being \<^verbatim>\<open><null>\<close> for a null pointer;
  (d) anything else gives "unknown exception".
  In (a), (b) and (c) the detail contains the message, category name and code (the class name
  and message; the text) whenever the formatted text has at most 127 characters.
\<close>

theorem onTerminate_classification:
  "onTerminate ih demangle (Some exc) =
     Abort (formatReason ih ''std::terminate()'' (Some (onTerminate_detail demangle exc)) None)
       True False None
   \<and> length (onTerminate_detail demangle exc) \<le> 127
   \<and> (as_system_error exc = Some ec \<longrightarrow>
        onTerminate_detail demangle exc =
          take 127 (''std::system_error: \"'' @ ec_message ec @ ''\" ('' @ ec_category_name ec
            @ '':'' @ show_int (sint (ec_value ec)) @ '')'')
        \<and> (length (ec_message ec) + length (ec_category_name ec)
             + length (show_int (sint (ec_value ec))) + 25 \<le> 127 \<longrightarrow>
           sublist (ec_message ec) (onTerminate_detail demangle exc)
           \<and> sublist (ec_category_name ec) (onTerminate_detail demangle exc)
           \<and> sublist (show_int (sint (ec_value ec))) (onTerminate_detail demangle exc)))
   \<and> (as_system_error exc = None \<and> as_std_exception exc = Some e \<longrightarrow>
        onTerminate_detail demangle exc =
          take 127 (take 127 (demangle (typeid_name e)) @ '': \"'' @ exc_what e @ ''\"'')
        \<and> (length (demangle (typeid_name e)) + length (exc_what e) + 4 \<le> 127 \<longrightarrow>
           sublist (demangle (typeid_name e)) (onTerminate_detail demangle exc)
           \<and> sublist (exc_what e) (onTerminate_detail demangle exc)))
   \<and> (as_system_error exc = None \<and> as_std_exception exc = None
       \<and> as_const_char_ptr exc = Some p \<longrightarrow>
        onTerminate_detail demangle exc =
          take 127 (''exception (const char*): \"''
            @ (case p of None \<Rightarrow> ''<null>'' | Some t \<Rightarrow> t) @ ''\"'')
        \<and> (length (case p of None \<Rightarrow> ''<null>'' | Some t \<Rightarrow> t) + 27 \<le> 127 \<longrightarrow>
           sublist (case p of None \<Rightarrow> ''<null>'' | Some t \<Rightarrow> t)
             (onTerminate_detail demangle exc)))
   \<and> (as_system_error exc = None \<and> as_std_exception exc = None
       \<and> as_const_char_ptr exc = None \<longrightarrow>
        onTerminate_detail demangle exc = ''unknown exception'')"
proof (intro conjI impI)
  show "onTerminate ih demangle (Some exc) =
     Abort (formatReason ih ''std::terminate()'' (Some (onTerminate_detail demangle exc)) None)
       True False None"
    by (simp add: onTerminate_def)
next
  show "length (onTerminate_detail demangle exc) \<le> 127"
    by (rule onTerminate_detail_length)
next
  assume a: "as_system_error exc = Some ec"
  let ?full = "''std::system_error: \"'' @ ec_message ec @ ''\" ('' @ ec_category_name ec
            @ '':'' @ show_int (sint (ec_value ec)) @ '')''"
  show d: "onTerminate_detail demangle exc = take 127 ?full"
    using a by (rule onTerminate_detail_system_error)
  assume "length (ec_message ec) + length (ec_category_name ec)
             + length (show_int (sint (ec_value ec))) + 25 \<le> 127"
  then have f: "onTerminate_detail demangle exc = ?full" unfolding d by simp
  show "sublist (ec_message ec) (onTerminate_detail demangle exc)"
    unfolding f by (rule sublist_appendI)
  show "sublist (ec_category_name ec) (onTerminate_detail demangle exc)"
    unfolding f by (rule sublist_mid [where ps = "''std::system_error: \"'' @ ec_message ec @ ''\" (''"
          and ss = "'':'' @ show_int (sint (ec_value ec)) @ '')''"]) simp
  show "sublist (show_int (sint (ec_value ec))) (onTerminate_detail demangle exc)"
    unfolding f by (rule sublist_mid [where ps = "''std::system_error: \"'' @ ec_message ec @ ''\" (''
          @ ec_category_name ec @ '':''" and ss = "'')''"]) simp
next
  assume a: "as_system_error exc = None \<and> as_std_exception exc = Some e"
  let ?full = "take 127 (demangle (typeid_name e)) @ '': \"'' @ exc_what e @ ''\"''"
  show d: "onTerminate_detail demangle exc = take 127 ?full"
    using a by (simp add: onTerminate_detail_std_exception)
  assume "length (demangle (typeid_name e)) + length (exc_what e) + 4 \<le> 127"
  then have f: "onTerminate_detail demangle exc = demangle (typeid_name e) @ '': \"'' @ exc_what e @ ''\"''"
    unfolding d by simp
  show "sublist (demangle (typeid_name e)) (onTerminate_detail demangle exc)"
    unfolding f by (rule sublist_append_rightI)
  show "sublist (exc_what e) (onTerminate_detail demangle exc)"
    unfolding f by (rule sublist_mid [where ps = "demangle (typeid_name e) @ '': \"''" and ss = "''\"''"]) simp
next
  assume a: "as_system_error exc = None \<and> as_std_exception exc = None
       \<and> as_const_char_ptr exc = Some p"
  let ?t = "case p of None \<Rightarrow> ''<null>'' | Some t \<Rightarrow> t"
  show d: "onTerminate_detail demangle exc = take 127 (''exception (const char*): \"'' @ ?t @ ''\"'')"
    using a by (simp add: onTerminate_detail_const_char_ptr)
  assume "length ?t + 27 \<le> 127"
  then have f: "onTerminate_detail demangle exc = ''exception (const char*): \"'' @ ?t @ ''\"''"
    unfolding d by simp
  show "sublist ?t (onTerminate_detail demangle exc)"
    unfolding f by (rule sublist_appendI)
next
  assume "as_system_error exc = None \<and> as_std_exception exc = None
       \<and> as_const_char_ptr exc = None"
  then show "onTerminate_detail demangle exc = ''unknown exception''"
    by (simp add: onTerminate_detail_unknown)
qed

text \<open>
  C3 at the four throws of the test helpers (\<^verbatim>\<open>broken_pipe\<close>, \<^verbatim>\<open>runtime_error("whoopsi!")\<close>,
  a string literal, an int) and at a null \<^verbatim>\<open>const char*\<close>.
\<close>

theorem onTerminate_classification_witness:
  "onTerminate_detail (\<lambda>n. if n = ''St13runtime_error'' then ''std::runtime_error'' else n)
     \<lparr>as_system_error = Some \<lparr>ec_message = ''Broken pipe'', ec_category_name = ''generic'',
        ec_value = 32\<rparr>,
      as_std_exception = Some \<lparr>typeid_name = ''St12system_error'', exc_what = ''Broken pipe''\<rparr>,
      as_const_char_ptr = None\<rparr>
     = ''std::system_error: \"Broken pipe\" (generic:32)''
   \<and> onTerminate_detail (\<lambda>n. if n = ''St13runtime_error'' then ''std::runtime_error'' else n)
     \<lparr>as_system_error = None,
      as_std_exception = Some \<lparr>typeid_name = ''St13runtime_error'', exc_what = ''whoopsi!''\<rparr>,
      as_const_char_ptr = None\<rparr>
     = ''std::runtime_error: \"whoopsi!\"''
   \<and> onTerminate_detail (\<lambda>n. if n = ''St13runtime_error'' then ''std::runtime_error'' else n)
     \<lparr>as_system_error = None, as_std_exception = None,
      as_const_char_ptr = Some (Some ''This is my error text'')\<rparr>
     = ''exception (const char*): \"This is my error text\"''
   \<and> onTerminate_detail (\<lambda>n. if n = ''St13runtime_error'' then ''std::runtime_error'' else n)
     \<lparr>as_system_error = None, as_std_exception = None, as_const_char_ptr = Some None\<rparr>
     = ''exception (const char*): \"<null>\"''
   \<and> onTerminate \<lparr>REASON_PREFIX = ''!!! '', s_ALT_STACK_SIZE = 8192\<rparr>
       (\<lambda>n. if n = ''St13runtime_error'' then ''std::runtime_error'' else n)
       (Some \<lparr>as_system_error = None, as_std_exception = None, as_const_char_ptr = None\<rparr>)
     = Abort ''!!! std::terminate() (unknown exception)'' True False None"
  using
    onTerminate_classification [where ih = "\<lparr>REASON_PREFIX = ''!!! '', s_ALT_STACK_SIZE = 8192\<rparr>"
      and demangle = "\<lambda>n. if n = ''St13runtime_error'' then ''std::runtime_error'' else n"
      and exc = "\<lparr>as_system_error = Some \<lparr>ec_message = ''Broken pipe'',
          ec_category_name = ''generic'', ec_value = 32\<rparr>,
        as_std_exception = Some \<lparr>typeid_name = ''St12system_error'', exc_what = ''Broken pipe''\<rparr>,
        as_const_char_ptr = None\<rparr>"
      and ec = "\<lparr>ec_message = ''Broken pipe'', ec_category_name = ''generic'', ec_value = 32\<rparr>"]
    onTerminate_classification [where ih = "\<lparr>REASON_PREFIX = ''!!! '', s_ALT_STACK_SIZE = 8192\<rparr>"
      and demangle = "\<lambda>n. if n = ''St13runtime_error'' then ''std::runtime_error'' else n"
      and exc = "\<lparr>as_system_error = None,
        as_std_exception = Some \<lparr>typeid_name = ''St13runtime_error'', exc_what = ''whoopsi!''\<rparr>,
        as_const_char_ptr = None\<rparr>"
      and e = "\<lparr>typeid_name = ''St13runtime_error'', exc_what = ''whoopsi!''\<rparr>"]
    onTerminate_classification [where ih = "\<lparr>REASON_PREFIX = ''!!! '', s_ALT_STACK_SIZE = 8192\<rparr>"
      and demangle = "\<lambda>n. if n = ''St13runtime_error'' then ''std::runtime_error'' else n"
      and exc = "\<lparr>as_system_error = None, as_std_exception = None,
        as_const_char_ptr = Some (Some ''This is my error text'')\<rparr>"
      and p = "Some ''This is my error text''"]
    onTerminate_classification [where ih = "\<lparr>REASON_PREFIX = ''!!! '', s_ALT_STACK_SIZE = 8192\<rparr>"
      and demangle = "\<lambda>n. if n = ''St13runtime_error'' then ''std::runtime_error'' else n"
      and exc = "\<lparr>as_system_error = None, as_std_exception = None, as_const_char_ptr = Some None\<rparr>"
      and p = "None"]
    onTerminate_classification [where ih = "\<lparr>REASON_PREFIX = ''!!! '', s_ALT_STACK_SIZE = 8192\<rparr>"
      and demangle = "\<lambda>n. if n = ''St13runtime_error'' then ''std::runtime_error'' else n"
      and exc = "\<lparr>as_system_error = None, as_std_exception = None, as_const_char_ptr = None\<rparr>"]
  by (simp add: onTerminate_def onTerminate_detail_def formatReason_def snprintf_def show_int_def
      show_nat.simps digit_char_def)

section \<open>Registration of the handlers\<close>

text \<open>
  Claim C4. When \<^verbatim>\<open>OOOPSI_DISABLE_HANDLERS\<close> is exactly "1" the constructor returns with the
  process state as it was: no registration call of any kind, in either build. For any other
  value the constructor behaves as it does with the variable unset; from an unregistered
  process whose registration calls succeed that is the terminate hook, the alternate stack
  and the five signal handlers in order (on Windows the terminate hook, the exception filter
  and the abort signal handler).
\<close>

theorem HandlerSetup_env_override:
  "(getenv_OOOPSI_DISABLE_HANDLERS os = Some ''1'' \<longrightarrow>
      HandlerSetup ih os p = (p, Returned) \<and> HandlerSetup_win32 os p = (p, Returned))
   \<and> (getenv_OOOPSI_DISABLE_HANDLERS os \<noteq> Some ''1'' \<longrightarrow>
      HandlerSetup ih os p = HandlerSetup ih (os\<lparr>getenv_OOOPSI_DISABLE_HANDLERS := None\<rparr>) p
      \<and> HandlerSetup_win32 os p = HandlerSetup_win32 (os\<lparr>getenv_OOOPSI_DISABLE_HANDLERS := None\<rparr>) p)
   \<and> (getenv_OOOPSI_DISABLE_HANDLERS os \<noteq> Some ''1'' \<and> \<not> s_handlersRegistered p
       \<and> sigaltstack_errno os = None \<and> (\<forall>s\<in>set fatal_signals. sigaction_errno os s = None) \<longrightarrow>
      HandlerSetup ih os p =
        (p\<lparr>s_handlersRegistered := True,
           os_calls := os_calls p @ [Set_terminate, Sigaltstack (s_ALT_STACK_SIZE ih),
             Sigaction SIGABRT, Sigaction SIGSEGV, Sigaction SIGBUS, Sigaction SIGILL,
             Sigaction SIGFPE]\<rparr>, Returned))
   \<and> (getenv_OOOPSI_DISABLE_HANDLERS os \<noteq> Some ''1'' \<and> \<not> s_handlersRegistered p \<longrightarrow>
      HandlerSetup_win32 os p =
        (p\<lparr>s_handlersRegistered := True,
           os_calls := os_calls p @ [Set_terminate, SetUnhandledExceptionFilter,
             Signal_onAbort SIGABRT]\<rparr>, Returned))"
proof (intro conjI impI)
  assume "getenv_OOOPSI_DISABLE_HANDLERS os \<noteq> Some ''1'' \<and> \<not> s_handlersRegistered p
       \<and> sigaltstack_errno os = None \<and> (\<forall>s\<in>set fatal_signals. sigaction_errno os s = None)"
  then show "HandlerSetup ih os p =
        (p\<lparr>s_handlersRegistered := True,
           os_calls := os_calls p @ [Set_terminate, Sigaltstack (s_ALT_STACK_SIZE ih),
             Sigaction SIGABRT, Sigaction SIGSEGV, Sigaction SIGBUS, Sigaction SIGILL,
             Sigaction SIGFPE]\<rparr>, Returned)"
    by (simp add: HandlerSetup_install fatal_signals_map)
qed (simp_all add: HandlerSetup_disabled HandlerSetup_env_irrelevant [symmetric] HandlerSetup_win32_def)

text \<open>C4 with the variable set to "1" and set to "0".\<close>

theorem HandlerSetup_env_override_witness:
  "HandlerSetup \<lparr>REASON_PREFIX = ''!!! '', s_ALT_STACK_SIZE = 8192\<rparr>
      \<lparr>getenv_OOOPSI_DISABLE_HANDLERS = Some ''1'', sigaltstack_errno = None,
       sigaction_errno = (\<lambda>_. None), strerror = (\<lambda>_. ''Invalid argument'')\<rparr>
      \<lparr>s_handlersRegistered = False, os_calls = []\<rparr>
     = (\<lparr>s_handlersRegistered = False, os_calls = []\<rparr>, Returned)
   \<and> HandlerSetup \<lparr>REASON_PREFIX = ''!!! '', s_ALT_STACK_SIZE = 8192\<rparr>
      \<lparr>getenv_OOOPSI_DISABLE_HANDLERS = Some ''0'', sigaltstack_errno = None,
       sigaction_errno = (\<lambda>_. None), strerror = (\<lambda>_. ''Invalid argument'')\<rparr>
      \<lparr>s_handlersRegistered = False, os_calls = []\<rparr>
     = (\<lparr>s_handlersRegistered = True,
         os_calls = [Set_terminate, Sigaltstack 8192, Sigaction 6, Sigaction 11, Sigaction 7,
           Sigaction 4, Sigaction 8]\<rparr>, Returned)"
  using HandlerSetup_env_override [of
      "\<lparr>getenv_OOOPSI_DISABLE_HANDLERS = Some ''1'', sigaltstack_errno = None,
       sigaction_errno = (\<lambda>_. None), strerror = (\<lambda>_. ''Invalid argument'')\<rparr>"
      "\<lparr>REASON_PREFIX = ''!!! '', s_ALT_STACK_SIZE = 8192\<rparr>"
      "\<lparr>s_handlersRegistered = False, os_calls = []\<rparr>"]
    HandlerSetup_env_override [of
      "\<lparr>getenv_OOOPSI_DISABLE_HANDLERS = Some ''0'', sigaltstack_errno = None,
       sigaction_errno = (\<lambda>_. None), strerror = (\<lambda>_. ''Invalid argument'')\<rparr>"
      "\<lparr>REASON_PREFIX = ''!!! '', s_ALT_STACK_SIZE = 8192\<rparr>"
      "\<lparr>s_handlersRegistered = False, os_calls = []\<rparr>"]
  by (simp add: signal_defs HandlerSetup_def fatal_signals_def Let_def)

text \<open>
  Claim C5. When the flag \<^verbatim>\<open>s_handlersRegistered\<close> is set, the constructor returns with the
  process state unchanged and makes no registration call. A construction that was not
  disabled sets the flag, so a construction after it, under any environment, is such a
  no-op.
\<close>

theorem HandlerSetup_idempotent:
  "(s_handlersRegistered p \<longrightarrow>
      HandlerSetup ih os p = (p, Returned) \<and> HandlerSetup_win32 os p = (p, Returned))
   \<and> (getenv_OOOPSI_DISABLE_HANDLERS os \<noteq> Some ''1'' \<longrightarrow>
      s_handlersRegistered (fst (HandlerSetup ih os p))
      \<and> HandlerSetup ih os' (fst (HandlerSetup ih os p)) = (fst (HandlerSetup ih os p), Returned)
      \<and> s_handlersRegistered (fst (HandlerSetup_win32 os p))
      \<and> HandlerSetup_win32 os' (fst (HandlerSetup_win32 os p)) = (fst (HandlerSetup_win32 os p), Returned))"
  by (simp add: HandlerSetup_registered HandlerSetup_sets_flag HandlerSetup_win32_def)

text \<open>C5 at a process that has been through one full installation.\<close>

theorem HandlerSetup_idempotent_witness:
  "HandlerSetup \<lparr>REASON_PREFIX = ''!!! '', s_ALT_STACK_SIZE = 8192\<rparr>
      \<lparr>getenv_OOOPSI_DISABLE_HANDLERS = None, sigaltstack_errno = None,
       sigaction_errno = (\<lambda>_. None), strerror = (\<lambda>_. ''Invalid argument'')\<rparr>
      \<lparr>s_handlersRegistered = True,
       os_calls = [Set_terminate, Sigaltstack 8192, Sigaction 6, Sigaction 11, Sigaction 7,
         Sigaction 4, Sigaction 8]\<rparr>
     = (\<lparr>s_handlersRegistered = True,
         os_calls = [Set_terminate, Sigaltstack 8192, Sigaction 6, Sigaction 11, Sigaction 7,
           Sigaction 4, Sigaction 8]\<rparr>, Returned)"
  using HandlerSetup_idempotent [of
      "\<lparr>s_handlersRegistered = True,
       os_calls = [Set_terminate, Sigaltstack 8192, Sigaction 6, Sigaction 11, Sigaction 7,
         Sigaction 4, Sigaction 8]\<rparr>"
      "\<lparr>REASON_PREFIX = ''!!! '', s_ALT_STACK_SIZE = 8192\<rparr>"
      "\<lparr>getenv_OOOPSI_DISABLE_HANDLERS = None, sigaltstack_errno = None,
       sigaction_errno = (\<lambda>_. None), strerror = (\<lambda>_. ''Invalid argument'')\<rparr>"]
  by simp

text \<open>
  Claim C6. In a construction that is neither disabled nor repeated: when \<^verbatim>\<open>sigaltstack\<close>
  fails, the constructor ends in the hand-off made by \<^verbatim>\<open>err("sigaltstack", size)\<close> and no
  \<^verbatim>\<open>sigaction\<close> call follows; when \<^verbatim>\<open>sigaction\<close> fails for a signal after succeeding for
  the signals before it, the constructor ends in the hand-off made by
  \<^verbatim>\<open>err("sigaction", sig)\<close> and no later signal is registered. The constructor returns only
  when every call succeeded. The hand-off asks for a stack trace outside signal context, and
  its reason is \<^verbatim>\<open>name(param) failed: text\<close>, whole, whenever the error text has at most 222
  characters, which leaves room in the 256-byte message buffer.
\<close>

theorem HandlerSetup_failure_aborts:
  assumes "getenv_OOOPSI_DISABLE_HANDLERS os \<noteq> Some ''1''" and "\<not> s_handlersRegistered p"
  shows "(sigaltstack_errno os = Some e \<longrightarrow>
            HandlerSetup ih os p =
              (p\<lparr>s_handlersRegistered := True,
                 os_calls := os_calls p @ [Set_terminate, Sigaltstack (s_ALT_STACK_SIZE ih)]\<rparr>,
               Aborted (err os e ''sigaltstack'' (ucast (s_ALT_STACK_SIZE ih)))))
       \<and> (sigaltstack_errno os = None \<and> sig \<in> set fatal_signals \<and> sigaction_errno os sig = Some e
            \<and> (\<forall>s\<in>set (takeWhile (\<lambda>s. s \<noteq> sig) fatal_signals). sigaction_errno os s = None) \<longrightarrow>
            HandlerSetup ih os p =
              (p\<lparr>s_handlersRegistered := True,
                 os_calls := os_calls p @ [Set_terminate, Sigaltstack (s_ALT_STACK_SIZE ih)]
                   @ map Sigaction (takeWhile (\<lambda>s. s \<noteq> sig) fatal_signals @ [sig])\<rparr>,
               Aborted (err os e ''sigaction'' sig)))
       \<and> (snd (HandlerSetup ih os p) = Returned \<longleftrightarrow>
            sigaltstack_errno os = None \<and> (\<forall>s\<in>set fatal_signals. sigaction_errno os s = None))
       \<and> printTrace (err os e what param) \<and> \<not> inSignalHandler (err os e what param)
       \<and> (length what \<le> 11 \<and> length (strerror os e) \<le> 222 \<longrightarrow>
            reason (err os e what param) =
              what @ ''('' @ show_int (sint param) @ '') failed: '' @ strerror os e)"
proof (intro conjI impI)
  assume "sigaltstack_errno os = Some e"
  then show "HandlerSetup ih os p =
              (p\<lparr>s_handlersRegistered := True,
                 os_calls := os_calls p @ [Set_terminate, Sigaltstack (s_ALT_STACK_SIZE ih)]\<rparr>,
               Aborted (err os e ''sigaltstack'' (ucast (s_ALT_STACK_SIZE ih))))"
    using assms by (simp add: HandlerSetup_def Let_def)
next
  assume a: "sigaltstack_errno os = None \<and> sig \<in> set fatal_signals \<and> sigaction_errno os sig = Some e
            \<and> (\<forall>s\<in>set (takeWhile (\<lambda>s. s \<noteq> sig) fatal_signals). sigaction_errno os s = None)"
  then have "catch_signals os fatal_signals
      (p\<lparr>s_handlersRegistered := True,
         os_calls := os_calls p @ [Set_terminate, Sigaltstack (s_ALT_STACK_SIZE ih)]\<rparr>) =
     (p\<lparr>s_handlersRegistered := True,
         os_calls := os_calls p @ [Set_terminate, Sigaltstack (s_ALT_STACK_SIZE ih)]\<rparr>
        \<lparr>os_calls := os_calls (p\<lparr>s_handlersRegistered := True,
         os_calls := os_calls p @ [Set_terminate, Sigaltstack (s_ALT_STACK_SIZE ih)]\<rparr>)
          @ map Sigaction (takeWhile (\<lambda>s. s \<noteq> sig) fatal_signals @ [sig])\<rparr>,
      Aborted (err os e ''sigaction'' sig))"
    by (intro catch_signals_fail) simp_all
  then show "HandlerSetup ih os p =
              (p\<lparr>s_handlersRegistered := True,
                 os_calls := os_calls p @ [Set_terminate, Sigaltstack (s_ALT_STACK_SIZE ih)]
                   @ map Sigaction (takeWhile (\<lambda>s. s \<noteq> sig) fatal_signals @ [sig])\<rparr>,
               Aborted (err os e ''sigaction'' sig))"
    using assms a by (simp add: HandlerSetup_def Let_def)
next
  show "snd (HandlerSetup ih os p) = Returned \<longleftrightarrow>
            sigaltstack_errno os = None \<and> (\<forall>s\<in>set fatal_signals. sigaction_errno os s = None)"
    using assms by (simp add: HandlerSetup_def Let_def catch_signals_Returned_iff split: option.splits)
next
  show "printTrace (err os e what param)" by (simp add: err_def)
next
  show "\<not> inSignalHandler (err os e what param)" by (simp add: err_def)
next
  assume "length what \<le> 11 \<and> length (strerror os e) \<le> 222"
  then show "reason (err os e what param) =
              what @ ''('' @ show_int (sint param) @ '') failed: '' @ strerror os e"
    by (simp add: err_reason_fits)
qed

text \<open>C6 at a failing \<^verbatim>\<open>sigaltstack\<close> (ENOMEM) and at \<^verbatim>\<open>sigaction\<close> failing for \<^verbatim>\<open>SIGBUS\<close> (EINVAL).\<close>

theorem HandlerSetup_failure_aborts_witness:
  "HandlerSetup \<lparr>REASON_PREFIX = ''!!! '', s_ALT_STACK_SIZE = 8192\<rparr>
      \<lparr>getenv_OOOPSI_DISABLE_HANDLERS = None, sigaltstack_errno = Some 12,
       sigaction_errno = (\<lambda>_. None), strerror = (\<lambda>_. ''Cannot allocate memory'')\<rparr>
      \<lparr>s_handlersRegistered = False, os_calls = []\<rparr>
     = (\<lparr>s_handlersRegistered = True, os_calls = [Set_terminate, Sigaltstack 8192]\<rparr>,
        Aborted (Abort ''sigaltstack(8192) failed: Cannot allocate memory'' True False None))
   \<and> HandlerSetup \<lparr>REASON_PREFIX = ''!!! '', s_ALT_STACK_SIZE = 8192\<rparr>
      \<lparr>getenv_OOOPSI_DISABLE_HANDLERS = None, sigaltstack_errno = None,
       sigaction_errno = (\<lambda>s. if s = 7 then Some 22 else None), strerror = (\<lambda>_. ''Invalid argument'')\<rparr>
      \<lparr>s_handlersRegistered = False, os_calls = []\<rparr>
     = (\<lparr>s_handlersRegistered = True,
         os_calls = [Set_terminate, Sigaltstack 8192, Sigaction 6, Sigaction 11, Sigaction 7]\<rparr>,
        Aborted (Abort ''sigaction(7) failed: Invalid argument'' True False None))"
proof -
  have h1: "getenv_OOOPSI_DISABLE_HANDLERS
      \<lparr>getenv_OOOPSI_DISABLE_HANDLERS = None, sigaltstack_errno = Some 12,
       sigaction_errno = (\<lambda>_. None), strerror = (\<lambda>_. ''Cannot allocate memory'')\<rparr> \<noteq> Some ''1''"
    by simp
  have h2: "getenv_OOOPSI_DISABLE_HANDLERS
      \<lparr>getenv_OOOPSI_DISABLE_HANDLERS = None, sigaltstack_errno = None,
       sigaction_errno = (\<lambda>s. if s = 7 then Some 22 else None),
       strerror = (\<lambda>_. ''Invalid argument'')\<rparr> \<noteq> Some ''1''"
    by simp
  have p: "\<not> s_handlersRegistered \<lparr>s_handlersRegistered = False, os_calls = []\<rparr>"
    by simp
  from HandlerSetup_failure_aborts [OF h1 p,
      of 12 "\<lparr>REASON_PREFIX = ''!!! '', s_ALT_STACK_SIZE = 8192\<rparr>" 7 "''sigaltstack''" 8192]
    HandlerSetup_failure_aborts [OF h2 p,
      of 22 "\<lparr>REASON_PREFIX = ''!!! '', s_ALT_STACK_SIZE = 8192\<rparr>" 7 "''sigaction''" 7]
  show ?thesis
    by (simp add: fatal_signals_def signal_defs err_def snprintf_def show_int_def show_nat.simps
        digit_char_def)
qed

text \<open>
  Claim C10. A construction disabled by \<^verbatim>\<open>OOOPSI_DISABLE_HANDLERS=1\<close> leaves the whole process
  state as it was, the flag included, so a later construction behaves as if the disabled one
  had not happened: from an unregistered process, with the variable no longer "1" and the
  registration calls succeeding, it performs the full installation.
\<close>

theorem HandlerSetup_disabled_frame:
  assumes "getenv_OOOPSI_DISABLE_HANDLERS os = Some ''1''"
  shows "HandlerSetup ih os p = (p, Returned)
       \<and> HandlerSetup_win32 os p = (p, Returned)
       \<and> HandlerSetup ih os' (fst (HandlerSetup ih os p)) = HandlerSetup ih os' p
       \<and> HandlerSetup_win32 os' (fst (HandlerSetup_win32 os p)) = HandlerSetup_win32 os' p
       \<and> (\<not> s_handlersRegistered p \<and> getenv_OOOPSI_DISABLE_HANDLERS os' \<noteq> Some ''1''
           \<and> sigaltstack_errno os' = None \<and> (\<forall>s\<in>set fatal_signals. sigaction_errno os' s = None) \<longrightarrow>
          HandlerSetup ih os' (fst (HandlerSetup ih os p)) =
            (p\<lparr>s_handlersRegistered := True,
               os_calls := os_calls p @ [Set_terminate, Sigaltstack (s_ALT_STACK_SIZE ih),
                 Sigaction SIGABRT, Sigaction SIGSEGV, Sigaction SIGBUS, Sigaction SIGILL,
                 Sigaction SIGFPE]\<rparr>, Returned))
       \<and> (\<not> s_handlersRegistered p \<and> getenv_OOOPSI_DISABLE_HANDLERS os' \<noteq> Some ''1'' \<longrightarrow>
          HandlerSetup_win32 os' (fst (HandlerSetup_win32 os p)) =
            (p\<lparr>s_handlersRegistered := True,
               os_calls := os_calls p @ [Set_terminate, SetUnhandledExceptionFilter,
                 Signal_onAbort SIGABRT]\<rparr>, Returned))"
proof -
  have d: "HandlerSetup ih os p = (p, Returned)" using assms by (rule HandlerSetup_disabled)
  have w: "HandlerSetup_win32 os p = (p, Returned)" using assms by (simp add: HandlerSetup_win32_def)
  show ?thesis unfolding d w
    by (simp add: HandlerSetup_install fatal_signals_map) (simp add: HandlerSetup_win32_def)
qed

text \<open>C10: a disabled construction followed by one with the variable unset.\<close>

theorem HandlerSetup_disabled_frame_witness:
  "HandlerSetup \<lparr>REASON_PREFIX = ''!!! '', s_ALT_STACK_SIZE = 8192\<rparr>
      \<lparr>getenv_OOOPSI_DISABLE_HANDLERS = None, sigaltstack_errno = None,
       sigaction_errno = (\<lambda>_. None), strerror = (\<lambda>_. ''Invalid argument'')\<rparr>
      (fst (HandlerSetup \<lparr>REASON_PREFIX = ''!!! '', s_ALT_STACK_SIZE = 8192\<rparr>
        \<lparr>getenv_OOOPSI_DISABLE_HANDLERS = Some ''1'', sigaltstack_errno = None,
         sigaction_errno = (\<lambda>_. None), strerror = (\<lambda>_. ''Invalid argument'')\<rparr>
        \<lparr>s_handlersRegistered = False, os_calls = []\<rparr>))
     = (\<lparr>s_handlersRegistered = True,
         os_calls = [Set_terminate, Sigaltstack 8192, Sigaction 6, Sigaction 11, Sigaction 7,
           Sigaction 4, Sigaction 8]\<rparr>, Returned)"
proof -
  have h: "getenv_OOOPSI_DISABLE_HANDLERS
      \<lparr>getenv_OOOPSI_DISABLE_HANDLERS = Some ''1'', sigaltstack_errno = None,
       sigaction_errno = (\<lambda>_. None), strerror = (\<lambda>_. ''Invalid argument'')\<rparr> = Some ''1''"
    by simp
  from HandlerSetup_disabled_frame [OF h,
      of "\<lparr>REASON_PREFIX = ''!!! '', s_ALT_STACK_SIZE = 8192\<rparr>"
      "\<lparr>s_handlersRegistered = False, os_calls = []\<rparr>"
      "\<lparr>getenv_OOOPSI_DISABLE_HANDLERS = None, sigaltstack_errno = None,
       sigaction_errno = (\<lambda>_. None), strerror = (\<lambda>_. ''Invalid argument'')\<rparr>"]
  show ?thesis by (simp add: signal_defs HandlerSetup_def fatal_signals_def Let_def)
qed

end
